theory Spec2Isabelle
  imports Main
begin

section \<open>JavaScript values\<close>

text \<open>
  A reference is the identity of an allocated object or function. The program never writes
  to an object after allocating it, so an object value carries its identity together with its
  (immutable) own properties, in enumeration order. A function value is its reference alone:
  the program only passes functions around and compares them.

  \<open>json\<close> is the part of \<open>unknown\<close> whose serialization is text: null, booleans,
  strings, arrays and nested plain objects. Strings are lists of 8-bit characters.
\<close>

type_synonym ref = nat

datatype json =
    JNull
  | JBool bool
  | JString string
  | JArray "json list"
  | JObject "(string \<times> json) list"

record jsobject =
  ident :: ref
  entries :: "(string \<times> json) list"

datatype jsvalue =
    VString string
  | VObject jsobject
  | VFunction ref

text \<open>
  The effects a render function of this program can have: a line on the console (the message
  and the object logged with it), and the call of a function value.
\<close>

datatype action =
    ConsoleLog string "(string \<times> jsvalue) list"
  | Invoke ref

text \<open>
  A rendered tree: a text node, a host element with its attributes and children, or a
  fragment \<open><>...</>\<close>, which has children and no node of its own.
\<close>

datatype element =
    Text string
  | Element string "(string \<times> string) list" "element list"
  | Fragment "element list"

subsection \<open>\<open>JSON.stringify\<close>\<close>

text \<open>
  The built-in \<open>JSON.stringify\<close> with one argument, on the values of \<open>json\<close>:
  a string is quoted, with the two-character escapes for backspace, tab, line feed, form feed,
  carriage return, the double quote and the backslash, and \<open>\u00XX\<close> (lower-case hex) for
  the other characters below 0x20; arrays and objects are written without white space.
\<close>

definition hex_digit :: "nat \<Rightarrow> char" where
  "hex_digit n = ''0123456789abcdef'' ! (n mod 16)"

definition quote_char :: "char \<Rightarrow> string" where
  "quote_char c =
     (if c = CHR 0x08 then [CHR 0x5C, CHR ''b'']
      else if c = CHR 0x09 then [CHR 0x5C, CHR ''t'']
      else if c = CHR 0x0A then [CHR 0x5C, CHR ''n'']
      else if c = CHR 0x0C then [CHR 0x5C, CHR ''f'']
      else if c = CHR 0x0D then [CHR 0x5C, CHR ''r'']
      else if c = CHR 0x22 then [CHR 0x5C, CHR 0x22]
      else if c = CHR 0x5C then [CHR 0x5C, CHR 0x5C]
      else if (of_char c :: nat) < 0x20
        then [CHR 0x5C, CHR ''u'', CHR ''0'', CHR ''0'',
              hex_digit ((of_char c :: nat) div 16), hex_digit (of_char c :: nat)]
      else [c])"

definition quote_string :: "string \<Rightarrow> string" where
  "quote_string s = [CHR 0x22] @ concat (map quote_char s) @ [CHR 0x22]"

fun join :: "string \<Rightarrow> string list \<Rightarrow> string" where
  "join sep [] = []"
| "join sep [x] = x"
| "join sep (x # y # ys) = x @ sep @ join sep (y # ys)"

fun JSON_stringify :: "json \<Rightarrow> string" where
  "JSON_stringify JNull = ''null''"
| "JSON_stringify (JBool b) = (if b then ''true'' else ''false'')"
| "JSON_stringify (JString s) = quote_string s"
| "JSON_stringify (JArray vs) = ''['' @ join '','' (map JSON_stringify vs) @ '']''"
| "JSON_stringify (JObject kvs) =
     ''{'' @ join '','' (map (\<lambda>(k, v). quote_string k @ '':'' @ JSON_stringify v) kvs) @ ''}''"

section \<open>The leaf display units\<close>

text \<open>
  A component function takes its props and returns what it did (its effects, in order) and
  the tree it rendered. The props of the three versions of \<open>Component2\<close> are one record
  extended twice: \<open>{surname}\<close>, \<open>{surname, data}\<close>, \<open>{surname, data, func}\<close>.
\<close>

record Component1Props =
  name :: string

record Props =
  surname :: string

record Props_data = Props +
  data :: jsobject

record Component2Props = Props_data +
  func :: ref

text \<open>The props object of each component: its own properties, as \<open>{ name }\<close> builds them.\<close>

definition Component1Props_object :: "Component1Props \<Rightarrow> (string \<times> jsvalue) list" where
  "Component1Props_object p = [(''name'', VString (name p))]"

definition Props_object :: "Props \<Rightarrow> (string \<times> jsvalue) list" where
  "Props_object p = [(''surname'', VString (surname p))]"

definition Props_data_object :: "Props_data \<Rightarrow> (string \<times> jsvalue) list" where
  "Props_data_object p = [(''surname'', VString (surname p)), (''data'', VObject (data p))]"

definition Component2Props_object :: "Component2Props \<Rightarrow> (string \<times> jsvalue) list" where
  "Component2Props_object p =
     [(''surname'', VString (surname p)), (''data'', VObject (data p)),
      (''func'', VFunction (func p))]"

text \<open>\<open>Component1\<close>, wrapped in a \<open>div\<close> (the first listing of the leaf).\<close>

definition Component1 :: "Component1Props \<Rightarrow> action list \<times> element" where
  "Component1 p =
     ([ConsoleLog ''Component1 :: render'' [(''name'', VString (name p))]],
      Element ''div'' []
        [Element ''label'' [] [Text ''Component1: ''],
         Element ''p'' [] [Text ''Name: '', Text (name p)]])"

text \<open>\<open>Component1\<close>, in a fragment (the second listing of the leaf).\<close>

definition Component1_fragment :: "Component1Props \<Rightarrow> action list \<times> element" where
  "Component1_fragment p =
     ([ConsoleLog ''Component1 :: render'' [(''name'', VString (name p))]],
      Fragment
        [Element ''label'' [] [Text ''Component1: ''],
         Element ''p'' [] [Text ''Name: '', Text (name p)]])"

text \<open>\<open>Component2\<close> with the single prop \<open>surname\<close>.\<close>

definition Component2 :: "Props \<Rightarrow> action list \<times> element" where
  "Component2 p =
     ([ConsoleLog ''Component2 :: render'' [(''surname'', VString (surname p))]],
      Element ''div'' []
        [Element ''label'' [] [Text ''Component2: ''],
         Element ''p'' [] [Text ''Surname: '', Text (surname p)]])"

text \<open>\<open>Component2\<close> with \<open>surname\<close> and \<open>data\<close> (the second problem of the narrative).\<close>

definition Component2_data :: "Props_data \<Rightarrow> action list \<times> element" where
  "Component2_data p =
     ([ConsoleLog ''Component2 :: render''
         [(''surname'', VString (surname p)), (''data'', VObject (data p))]],
      Element ''div'' []
        [Element ''label'' [] [Text ''Component2: ''],
         Element ''p'' [] [Text ''Surname: '', Text (surname p)],
         Element ''p'' [] [Text ''Data: '', Text (JSON_stringify (JObject (entries (data p))))]])"

text \<open>\<open>Component2\<close> with \<open>surname\<close>, \<open>data\<close> and \<open>func\<close>, wrapped in a \<open>div\<close>.\<close>

definition Component2_func :: "Component2Props \<Rightarrow> action list \<times> element" where
  "Component2_func p =
     ([ConsoleLog ''Component2 :: render''
         [(''surname'', VString (surname p)), (''data'', VObject (data p)),
          (''func'', VFunction (func p))]],
      Element ''div'' []
        [Element ''label'' [] [Text ''Component2: ''],
         Element ''p'' [] [Text ''Surname: '', Text (surname p)],
         Element ''p'' [] [Text ''Data: '', Text (JSON_stringify (JObject (entries (data p))))]])"

text \<open>\<open>Component2\<close> with \<open>surname\<close>, \<open>data\<close> and \<open>func\<close>, in a fragment.\<close>

definition Component2_func_fragment :: "Component2Props \<Rightarrow> action list \<times> element" where
  "Component2_func_fragment p =
     ([ConsoleLog ''Component2 :: render''
         [(''surname'', VString (surname p)), (''data'', VObject (data p)),
          (''func'', VFunction (func p))]],
      Fragment
        [Element ''label'' [] [Text ''Component2: ''],
         Element ''p'' [] [Text ''Surname: '', Text (surname p)],
         Element ''p'' [] [Text ''Data: '', Text (JSON_stringify (JObject (entries (data p))))]])"

text \<open>The children of a tree's root, and the text a tree shows (the DOM's \<open>textContent\<close>).\<close>

fun children :: "element \<Rightarrow> element list" where
  "children (Text s) = []"
| "children (Element tag attrs cs) = cs"
| "children (Fragment cs) = cs"

fun text_content :: "element \<Rightarrow> string" where
  "text_content (Text s) = s"
| "text_content (Element tag attrs cs) = concat (map text_content cs)"
| "text_content (Fragment cs) = concat (map text_content cs)"

text \<open>How often a component's render function ran, read off the console as the demo does.\<close>

fun is_render_of :: "string \<Rightarrow> action \<Rightarrow> bool" where
  "is_render_of c (ConsoleLog m obj) = (m = c @ '' :: render'')"
| "is_render_of c (Invoke r) = False"

definition renders :: "string \<Rightarrow> action list \<Rightarrow> nat" where
  "renders c acts = length (filter (is_render_of c) acts)"

section \<open>The framework's primitives\<close>

text \<open>
  Modelled from the spec: the framework's \<open>Object.is\<close> and shallow comparison, which are
  not code of the repository. ``A shallow, key-by-key comparison of the current prop set
  against the previous one''; ``structured (object/function) properties are compared by
  reference identity only'', primitives by value.
\<close>

fun Object_is :: "jsvalue \<Rightarrow> jsvalue \<Rightarrow> bool" where
  "Object_is (VString a) (VString b) = (a = b)"
| "Object_is (VObject a) (VObject b) = (ident a = ident b)"
| "Object_is (VFunction f) (VFunction g) = (f = g)"
| "Object_is v w = False"

definition shallowEqual :: "(string \<times> jsvalue) list \<Rightarrow> (string \<times> jsvalue) list \<Rightarrow> bool" where
  "shallowEqual a b =
     (length a = length b \<and>
      list_all (\<lambda>(k, v). case map_of b k of None \<Rightarrow> False | Some w \<Rightarrow> Object_is v w) a)"

text \<open>
  Modelled from the spec: \<open>React.memo\<close>, which is not code of the repository. The guard
  keeps the props and the output of the last render. ``If every compared value is
  reference-or-primitive-equal, the unit's render logic is skipped and the previous output
  is reused''; otherwise, and at mount, the component function runs on the new props.
  The result is the effects of this pass, the output shown, and the guard's new cell.
\<close>

definition React_memo ::
  "('p \<Rightarrow> (string \<times> jsvalue) list) \<Rightarrow> ('p \<Rightarrow> action list \<times> element) \<Rightarrow>
   'p \<Rightarrow> ('p \<times> element) option \<Rightarrow> (action list \<times> element) \<times> ('p \<times> element) option" where
  "React_memo obj component p cell =
     (case cell of
        None \<Rightarrow> (component p, Some (p, snd (component p)))
      | Some (q, out) \<Rightarrow>
          if shallowEqual (obj q) (obj p) then (([], out), Some (q, out))
          else (component p, Some (p, snd (component p))))"

text \<open>A memoized unit supplied with one prop set after the other: the effects, and the cell.\<close>

fun feed ::
  "('p \<Rightarrow> (string \<times> jsvalue) list) \<Rightarrow> ('p \<Rightarrow> action list \<times> element) \<Rightarrow>
   'p list \<Rightarrow> ('p \<times> element) option \<Rightarrow> action list \<times> ('p \<times> element) option" where
  "feed obj component [] cell = ([], cell)"
| "feed obj component (p # ps) cell =
     (let (r, cell') = React_memo obj component p cell;
          (acts, cell'') = feed obj component ps cell'
      in (fst r @ acts, cell''))"

section \<open>The root unit\<close>

text \<open>
  What lives across renders of \<open>Home\<close>: the two \<open>useState\<close> cells, the cell of the
  \<open>useMemo\<close> hook and of the \<open>useCallback\<close> hook (the dependencies and the value of the
  last computation), the allocator's next reference, the console, the cells of the two
  memoized children, and the tree on the page.
\<close>

record 'p app =
  name_state :: string
  surname_state :: string
  data_hook :: "(string list \<times> jsobject) option"
  func_hook :: "(string list \<times> ref) option"
  next_ref :: ref
  console :: "action list"
  c1_cell :: "(Component1Props \<times> element) option"
  c2_cell :: "('p \<times> element) option"
  view :: "element option"

text \<open>\<open>useState('')\<close>, twice: at mount both cells hold the empty string.\<close>

definition initial :: "'p app" where
  "initial =
     \<lparr>name_state = '''', surname_state = '''', data_hook = None, func_hook = None,
      next_ref = 0, console = [], c1_cell = None, c2_cell = None, view = None\<rparr>"

definition setName :: "string \<Rightarrow> 'p app \<Rightarrow> 'p app" where
  "setName v s = s\<lparr>name_state := v\<rparr>"

definition setSurname :: "string \<Rightarrow> 'p app \<Rightarrow> 'p app" where
  "setSurname v s = s\<lparr>surname_state := v\<rparr>"

text \<open>An object literal and an arrow function expression each allocate a fresh reference.\<close>

definition new_object :: "(string \<times> json) list \<Rightarrow> 'p app \<Rightarrow> jsobject \<times> 'p app" where
  "new_object kvs s = (\<lparr>ident = next_ref s, entries = kvs\<rparr>, s\<lparr>next_ref := Suc (next_ref s)\<rparr>)"

definition new_function :: "'p app \<Rightarrow> ref \<times> 'p app" where
  "new_function s = (next_ref s, s\<lparr>next_ref := Suc (next_ref s)\<rparr>)"

text \<open>
  Modelled from the spec: the hooks \<open>useMemo\<close> and \<open>useCallback\<close>, which are not code of
  the repository. A ``single-slot cache that recomputes its stored value only when an
  explicitly declared set of inputs changes'': \<open>useMemo\<close> runs ``create'' at mount and when a
  dependency differs from the stored one; \<open>useCallback\<close> keeps the function it was first
  given until a dependency changes.
\<close>

definition useMemo ::
  "('p app \<Rightarrow> jsobject \<times> 'p app) \<Rightarrow> string list \<Rightarrow> 'p app \<Rightarrow> jsobject \<times> 'p app" where
  "useMemo create deps s =
     (case data_hook s of
        Some (prev, v) \<Rightarrow>
          if prev = deps then (v, s)
          else (let (v', s') = create s in (v', s'\<lparr>data_hook := Some (deps, v')\<rparr>))
      | None \<Rightarrow> (let (v', s') = create s in (v', s'\<lparr>data_hook := Some (deps, v')\<rparr>)))"

definition useCallback :: "ref \<Rightarrow> string list \<Rightarrow> 'p app \<Rightarrow> ref \<times> 'p app" where
  "useCallback f deps s =
     (case func_hook s of
        Some (prev, g) \<Rightarrow>
          if prev = deps then (g, s) else (f, s\<lparr>func_hook := Some (deps, f)\<rparr>)
      | None \<Rightarrow> (f, s\<lparr>func_hook := Some (deps, f)\<rparr>))"

text \<open>
  The tree \<open>Home\<close> returns, with the output of the two children in place. The \<open>onChange\<close>
  handlers are the events below, not attributes of the tree.
\<close>

definition Home_tree :: "string \<Rightarrow> string \<Rightarrow> element \<Rightarrow> element \<Rightarrow> element" where
  "Home_tree n sn e1 e2 =
     Element ''div'' [(''className'', ''container'')]
       [Element ''label'' [] [Text ''Name: ''],
        Element ''input'' [(''type'', ''text''), (''value'', n)] [],
        Element ''label'' [] [Text ''Surname: ''],
        Element ''input'' [(''type'', ''text''), (''value'', sn)] [],
        e1, e2]"

text \<open>
  The part every version of \<open>Home\<close> shares: \<open><Component1 name={name} />\<close> and
  \<open><Component2 ... />\<close> go through their guards, in this order, and the page is rebuilt.
  \<open>obj\<close>, \<open>component\<close> and \<open>p2\<close> are the props object, the function and the props of the
  \<open>Component2\<close> in use.
\<close>

definition render_Home ::
  "('p \<Rightarrow> (string \<times> jsvalue) list) \<Rightarrow> ('p \<Rightarrow> action list \<times> element) \<Rightarrow>
   'p \<Rightarrow> 'p app \<Rightarrow> 'p app" where
  "render_Home obj component p2 s =
     (let (r1, k1) = React_memo Component1Props_object Component1 \<lparr>name = name_state s\<rparr> (c1_cell s);
          (r2, k2) = React_memo obj component p2 (c2_cell s)
      in s\<lparr>console := console s @ fst r1 @ fst r2, c1_cell := k1, c2_cell := k2,
           view := Some (Home_tree (name_state s) (surname_state s) (snd r1) (snd r2))\<rparr>)"

text \<open>\<open>Home\<close> as the page has it: \<open><Component2 surname={surname} />\<close>.\<close>

definition Home :: "Props app \<Rightarrow> Props app" where
  "Home s = render_Home Props_object Component2 \<lparr>surname = surname_state s\<rparr> s"

text \<open>The second problem of the narrative: \<open><Component2 surname={surname} data={{}} />\<close>.\<close>

definition Home_data_literal :: "Props_data app \<Rightarrow> Props_data app" where
  "Home_data_literal s =
     (let (d, s1) = new_object [] s
      in render_Home Props_data_object Component2_data
           \<lparr>surname = surname_state s1, data = d\<rparr> s1)"

text \<open>
  The last problem of the narrative: \<open>data\<close> comes from \<open>useMemo\<close>, and
  \<open>func={() => undefined}\<close> is written in place. \<open>component\<close> is the three-prop \<open>Component2\<close>
  that the import resolves to.
\<close>

definition Home_func_literal ::
  "(Component2Props \<Rightarrow> action list \<times> element) \<Rightarrow> Component2Props app \<Rightarrow> Component2Props app" where
  "Home_func_literal component s =
     (let (d, s1) = useMemo (new_object [(''surname'', JString (surname_state s))]) [surname_state s] s;
          (f, s2) = new_function s1
      in render_Home Component2Props_object component
           \<lparr>surname = surname_state s2, data = d, func = f\<rparr> s2)"

text \<open>
  The final code: \<open>useMemo(() => ({ surname }), [surname])\<close> and
  \<open>useCallback(() => undefined, [])\<close>. The arrow function is still allocated on each
  evaluation; \<open>useCallback\<close> decides which one is passed on.
\<close>

definition Home_final ::
  "(Component2Props \<Rightarrow> action list \<times> element) \<Rightarrow> Component2Props app \<Rightarrow> Component2Props app" where
  "Home_final component s =
     (let (d, s1) = useMemo (new_object [(''surname'', JString (surname_state s))]) [surname_state s] s;
          (f, s2) = new_function s1;
          (g, s3) = useCallback f [] s2
      in render_Home Component2Props_object component
           \<lparr>surname = surname_state s3, data = d, func = g\<rparr> s3)"

section \<open>Mount and change events\<close>

text \<open>
  A change event of an input carries the input's new value, \<open>e.target.value\<close>; its handler
  is \<open>setName\<close> or \<open>setSurname\<close>.
\<close>

datatype event = ChangeName string | ChangeSurname string

text \<open>
  Modelled from the spec: the framework's update cycle, which is not code of the repository:
  ``user keystroke, root's local state updates, root re-evaluates''. In one point the model
  follows the framework where the spec is silent: a state setter called with the value the
  cell already holds schedules nothing, so the root is not evaluated and no child renders.
  The input fires a change event only when its value changed, so such an event does not come
  from a keystroke.
\<close>

definition mount :: "('p app \<Rightarrow> 'p app) \<Rightarrow> 'p app" where
  "mount home = home initial"

fun dispatch :: "('p app \<Rightarrow> 'p app) \<Rightarrow> event \<Rightarrow> 'p app \<Rightarrow> 'p app" where
  "dispatch home (ChangeName v) s = (if v = name_state s then s else home (setName v s))"
| "dispatch home (ChangeSurname v) s = (if v = surname_state s then s else home (setSurname v s))"

fun run :: "('p app \<Rightarrow> 'p app) \<Rightarrow> 'p app \<Rightarrow> event list \<Rightarrow> 'p app" where
  "run home s [] = s"
| "run home s (e # es) = run home (dispatch home e s) es"

definition c1_renders :: "'p app \<Rightarrow> nat" where
  "c1_renders s = renders ''Component1'' (console s)"

definition c2_renders :: "'p app \<Rightarrow> nat" where
  "c2_renders s = renders ''Component2'' (console s)"

section \<open>Specification functions and invariants\<close>

text \<open>
  What the events say the two cells hold, and how often a list of events changes the
  surname, starting from a given value.
\<close>

fun name_after :: "string \<Rightarrow> event list \<Rightarrow> string" where
  "name_after n [] = n"
| "name_after n (ChangeName v # es) = name_after v es"
| "name_after n (ChangeSurname v # es) = name_after n es"

fun surname_after :: "string \<Rightarrow> event list \<Rightarrow> string" where
  "surname_after n [] = n"
| "surname_after n (ChangeName v # es) = surname_after n es"
| "surname_after n (ChangeSurname v # es) = surname_after v es"

fun surname_changes :: "string \<Rightarrow> event list \<Rightarrow> nat" where
  "surname_changes cur [] = 0"
| "surname_changes cur (ChangeName v # es) = surname_changes cur es"
| "surname_changes cur (ChangeSurname v # es) = (if v = cur then 0 else 1) + surname_changes v es"

text \<open>
  The cell of a guard after the prop sets \<open>ps\<close>, the last of them \<open>p\<close>: it holds the output
  of the component on one of the prop sets supplied, shallowly equal to \<open>p\<close>.
\<close>

definition held ::
  "('p \<Rightarrow> (string \<times> jsvalue) list) \<Rightarrow> ('p \<Rightarrow> action list \<times> element) \<Rightarrow>
   'p list \<Rightarrow> 'p \<Rightarrow> ('p \<times> element) option \<Rightarrow> bool" where
  "held obj component ps p cell =
     (case cell of
        None \<Rightarrow> False
      | Some (q, out) \<Rightarrow> out = snd (component q) \<and> shallowEqual (obj q) (obj p) \<and> q \<in> set ps)"

text \<open>
  The tree a guard returns for the prop set \<open>p\<close>, after the prop sets \<open>ps\<close> were supplied
  from mount: what the unit shows in that pass, rendered or reused.
\<close>

definition shown ::
  "('p \<Rightarrow> (string \<times> jsvalue) list) \<Rightarrow> ('p \<Rightarrow> action list \<times> element) \<Rightarrow>
   'p list \<Rightarrow> 'p \<Rightarrow> element" where
  "shown obj component ps p =
     snd (fst (React_memo obj component p (snd (feed obj component ps None))))"

text \<open>
  No object was written to between the passes: prop sets whose \<open>data\<close> is the same
  reference carry the same object.
\<close>

definition unmutated :: "Component2Props list \<Rightarrow> bool" where
  "unmutated ps =
     list_all (\<lambda>a. list_all (\<lambda>b. ident (data a) = ident (data b) \<longrightarrow> data a = data b) ps) ps"

text \<open>
  The page of the final code is current: the hooks hold the object made from the current
  surname and the function kept since mount, both guards hold the render of the current
  props, and the page shows these two trees.
\<close>

definition page_current ::
  "(Component2Props \<Rightarrow> action list \<times> element) \<Rightarrow> Component2Props app \<Rightarrow> bool" where
  "page_current component s =
     (case data_hook s of None \<Rightarrow> False | Some (deps, d) \<Rightarrow>
      (case func_hook s of None \<Rightarrow> False | Some (fdeps, f) \<Rightarrow>
         deps = [surname_state s] \<and> fdeps = [] \<and>
         entries d = [(''surname'', JString (surname_state s))] \<and>
         c1_cell s = Some (\<lparr>name = name_state s\<rparr>, snd (Component1 \<lparr>name = name_state s\<rparr>)) \<and>
         c2_cell s = Some (\<lparr>surname = surname_state s, data = d, func = f\<rparr>,
           snd (component \<lparr>surname = surname_state s, data = d, func = f\<rparr>)) \<and>
         view s = Some (Home_tree (name_state s) (surname_state s)
           (snd (Component1 \<lparr>name = name_state s\<rparr>))
           (snd (component \<lparr>surname = surname_state s, data = d, func = f\<rparr>)))))"

text \<open>The page of \<open>Home\<close> agrees with the two cells.\<close>

definition consistent :: "Props app \<Rightarrow> bool" where
  "consistent s =
     (c1_cell s = Some (\<lparr>name = name_state s\<rparr>, snd (Component1 \<lparr>name = name_state s\<rparr>)) \<and>
      c2_cell s = Some (\<lparr>surname = surname_state s\<rparr>, snd (Component2 \<lparr>surname = surname_state s\<rparr>)) \<and>
      view s = Some (Home_tree (name_state s) (surname_state s)
                 (snd (Component1 \<lparr>name = name_state s\<rparr>))
                 (snd (Component2 \<lparr>surname = surname_state s\<rparr>))))"

text \<open>
  In the final code, the hooks hold what \<open>Component2\<close> was last rendered with: the object
  computed for the current surname, and the one function kept since mount.
\<close>

definition stable :: "Component2Props app \<Rightarrow> bool" where
  "stable s =
     (case data_hook s of None \<Rightarrow> False | Some (deps, d) \<Rightarrow>
      (case func_hook s of None \<Rightarrow> False | Some (fdeps, f) \<Rightarrow>
       (case c2_cell s of None \<Rightarrow> False | Some (q, out) \<Rightarrow>
          deps = [surname_state s] \<and> fdeps = [] \<and>
          surname q = surname_state s \<and> ident (data q) = ident d \<and> func q = f)))"

text \<open>
  With a literal in the props, \<open>Component2\<close> was last rendered with a reference older than
  any the allocator will hand out.
\<close>

definition fresh_data :: "Props_data app \<Rightarrow> bool" where
  "fresh_data s =
     (case c2_cell s of None \<Rightarrow> False | Some (q, out) \<Rightarrow> ident (data q) < next_ref s)"

definition fresh_func :: "Component2Props app \<Rightarrow> bool" where
  "fresh_func s =
     (case c2_cell s of None \<Rightarrow> False | Some (q, out) \<Rightarrow> func q < next_ref s)"

section \<open>Lemmas\<close>

lemma render_Home_frame:
  "name_state (render_Home obj c p s) = name_state s"
  "surname_state (render_Home obj c p s) = surname_state s"
  "data_hook (render_Home obj c p s) = data_hook s"
  "func_hook (render_Home obj c p s) = func_hook s"
  "next_ref (render_Home obj c p s) = next_ref s"
  by (simp_all add: render_Home_def split: prod.splits)

lemma render_Home_console:
  "console (render_Home obj c p s) =
     console s @ fst (fst (React_memo Component1Props_object Component1 \<lparr>name = name_state s\<rparr> (c1_cell s)))
       @ fst (fst (React_memo obj c p (c2_cell s)))"
  by (simp add: render_Home_def split: prod.splits)

lemma render_Home_c1_cell:
  "c1_cell (render_Home obj c p s) =
     snd (React_memo Component1Props_object Component1 \<lparr>name = name_state s\<rparr> (c1_cell s))"
  by (simp add: render_Home_def split: prod.splits)

lemma render_Home_c2_cell:
  "c2_cell (render_Home obj c p s) = snd (React_memo obj c p (c2_cell s))"
  by (simp add: render_Home_def split: prod.splits)

lemma render_Home_view:
  "view (render_Home obj c p s) =
     Some (Home_tree (name_state s) (surname_state s)
       (snd (fst (React_memo Component1Props_object Component1 \<lparr>name = name_state s\<rparr> (c1_cell s))))
       (snd (fst (React_memo obj c p (c2_cell s)))))"
  by (simp add: render_Home_def split: prod.splits)

lemma renders_Nil: "renders c [] = 0"
  by (simp add: renders_def)

lemma renders_append: "renders c (a @ b) = renders c a + renders c b"
  by (simp add: renders_def)

lemma renders_Component1_memo:
  "renders ''Component2'' (fst (fst (React_memo Component1Props_object Component1 p cell))) = 0"
  by (simp add: React_memo_def renders_def Component1_def split: option.splits)

lemma c2_renders_render_Home:
  "renders ''Component2'' (console (render_Home obj c p s)) =
     renders ''Component2'' (console s) +
     renders ''Component2'' (fst (fst (React_memo obj c p (c2_cell s))))"
  by (simp add: render_Home_console renders_append renders_Component1_memo)

lemma shallowEqual_Component1Props:
  "shallowEqual (Component1Props_object q) (Component1Props_object p) = (q = p)"
  by (auto simp add: shallowEqual_def Component1Props_object_def)

lemma shallowEqual_Props:
  "shallowEqual (Props_object q) (Props_object p) = (q = p)"
  by (auto simp add: shallowEqual_def Props_object_def)

lemma shallowEqual_Props_data:
  "shallowEqual (Props_data_object q) (Props_data_object p) =
     (surname q = surname p \<and> ident (data q) = ident (data p))"
  by (auto simp add: shallowEqual_def Props_data_object_def)

lemma shallowEqual_Component2Props:
  "shallowEqual (Component2Props_object q) (Component2Props_object p) =
     (surname q = surname p \<and> ident (data q) = ident (data p) \<and> func q = func p)"
  by (auto simp add: shallowEqual_def Component2Props_object_def)

lemma renders_Component2: "renders ''Component2'' (fst (Component2 p)) = 1"
  by (simp add: renders_def Component2_def)

lemma renders_Component2_data: "renders ''Component2'' (fst (Component2_data p)) = 1"
  by (simp add: renders_def Component2_data_def)

lemma renders_Component2_func: "renders ''Component2'' (fst (Component2_func p)) = 1"
  by (simp add: renders_def Component2_func_def)

lemma renders_Component2_func_fragment:
  "renders ''Component2'' (fst (Component2_func_fragment p)) = 1"
  by (simp add: renders_def Component2_func_fragment_def)

lemma run_append: "run h s (es @ fs) = run h (run h s es) fs"
  by (induction es arbitrary: s) simp_all

lemma run_invariant:
  assumes "P s" and "\<And>s e. P s \<Longrightarrow> P (dispatch h e s)"
  shows "P (run h s es)"
  using assms(1) by (induction es arbitrary: s) (simp_all add: assms(2))

lemma surname_changes_names: "surname_changes cur (map ChangeName ns @ es) = surname_changes cur es"
  by (induction ns) simp_all

subsection \<open>\<open>Home\<close> as the page has it\<close>

lemma mount_Home_consistent: "consistent (mount Home)"
  by (simp add: consistent_def mount_def Home_def initial_def render_Home_frame
      render_Home_c1_cell render_Home_c2_cell render_Home_view React_memo_def)

lemma Home_consistent:
  assumes "c1_cell s = Some (p1, snd (Component1 p1))"
    and "c2_cell s = Some (p2, snd (Component2 p2))"
  shows "consistent (Home s)"
  using assms
  by (simp add: consistent_def Home_def render_Home_frame render_Home_c1_cell
      render_Home_c2_cell render_Home_view React_memo_def shallowEqual_Component1Props
      shallowEqual_Props)

lemma dispatch_Home_consistent:
  assumes "consistent s"
  shows "consistent (dispatch Home e s)"
proof (cases e)
  case (ChangeName v)
  have "consistent (Home (setName v s))"
    using assms by (intro Home_consistent) (simp_all add: consistent_def setName_def)
  with assms ChangeName show ?thesis by simp
next
  case (ChangeSurname v)
  have "consistent (Home (setSurname v s))"
    using assms by (intro Home_consistent) (simp_all add: consistent_def setSurname_def)
  with assms ChangeSurname show ?thesis by simp
qed

lemma reachable_Home_consistent: "consistent (run Home (mount Home) es)"
  by (rule run_invariant [where P = consistent]) (simp_all add: mount_Home_consistent dispatch_Home_consistent)

lemma Home_c2_renders:
  assumes "consistent s"
  shows "c2_renders (Home (s\<lparr>name_state := v\<rparr>)) = c2_renders s"
    and "v \<noteq> surname_state s \<Longrightarrow> c2_renders (Home (s\<lparr>surname_state := v\<rparr>)) = c2_renders s + 1"
  using assms
  by (simp_all add: consistent_def Home_def c2_renders_def
      c2_renders_render_Home React_memo_def shallowEqual_Props renders_Nil renders_Component2)

lemma Home_frame:
  "name_state (Home s) = name_state s"
  "surname_state (Home s) = surname_state s"
  by (simp_all add: Home_def render_Home_frame)

lemma run_Home_c2_renders:
  assumes "consistent s"
  shows "c2_renders (run Home s es) = c2_renders s + surname_changes (surname_state s) es"
  using assms
proof (induction es arbitrary: s)
  case Nil
  then show ?case by simp
next
  case (Cons e es)
  have c: "consistent (dispatch Home e s)"
    using Cons.prems by (rule dispatch_Home_consistent)
  show ?case
  proof (cases e)
    case (ChangeName v)
    then show ?thesis
      using Cons.IH [OF c] Cons.prems
      by (simp add: Home_c2_renders Home_frame setName_def)
  next
    case (ChangeSurname v)
    then show ?thesis
      using Cons.IH [OF c] Cons.prems
      by (simp add: Home_c2_renders Home_frame setSurname_def)
  qed
qed

subsection \<open>The final code\<close>

lemma stableE:
  assumes "stable s"
  obtains d f q out where "data_hook s = Some ([surname_state s], d)"
    and "func_hook s = Some ([], f)" and "c2_cell s = Some (q, out)"
    and "surname q = surname_state s" and "ident (data q) = ident d" and "func q = f"
  using assms
  by (cases "data_hook s"; cases "func_hook s"; cases "c2_cell s") (auto simp add: stable_def)

lemma stableI:
  assumes "data_hook s = Some ([surname_state s], d)"
    and "func_hook s = Some ([], f)" and "c2_cell s = Some (q, out)"
    and "surname q = surname_state s" and "ident (data q) = ident d" and "func q = f"
  shows "stable s"
  using assms by (simp add: stable_def)

lemma Home_final_same_surname:
  assumes "data_hook s = Some ([surname_state s], d)" and "func_hook s = Some ([], f)"
  shows "Home_final c s =
     render_Home Component2Props_object c \<lparr>surname = surname_state s, data = d, func = f\<rparr>
       (s\<lparr>next_ref := Suc (next_ref s)\<rparr>)"
  using assms by (simp add: Home_final_def useMemo_def useCallback_def new_function_def)

lemma Home_final_new_surname:
  assumes "data_hook s = Some ([old], d)" and "old \<noteq> surname_state s"
    and "func_hook s = Some ([], f)"
  shows "Home_final c s =
     render_Home Component2Props_object c
       \<lparr>surname = surname_state s,
        data = \<lparr>ident = next_ref s, entries = [(''surname'', JString (surname_state s))]\<rparr>,
        func = f\<rparr>
       (s\<lparr>data_hook := Some ([surname_state s],
            \<lparr>ident = next_ref s, entries = [(''surname'', JString (surname_state s))]\<rparr>),
          next_ref := Suc (Suc (next_ref s))\<rparr>)"
  using assms
  by (simp add: Home_final_def useMemo_def useCallback_def new_function_def new_object_def)

lemma Home_final_ChangeName:
  assumes "stable s"
  shows "stable (Home_final c (s\<lparr>name_state := v\<rparr>)) \<and>
         c2_renders (Home_final c (s\<lparr>name_state := v\<rparr>)) = c2_renders s"
proof -
  from assms obtain d f q out where h: "data_hook s = Some ([surname_state s], d)"
    "func_hook s = Some ([], f)" "c2_cell s = Some (q, out)"
    "surname q = surname_state s" "ident (data q) = ident d" "func q = f"
    by (rule stableE)
  let ?p = "\<lparr>surname = surname_state s, data = d, func = f\<rparr>"
  have eq: "Home_final c (s\<lparr>name_state := v\<rparr>) =
     render_Home Component2Props_object c ?p (s\<lparr>name_state := v, next_ref := Suc (next_ref s)\<rparr>)"
    using h Home_final_same_surname [of "s\<lparr>name_state := v\<rparr>" d f c] by simp
  have skip: "React_memo Component2Props_object c ?p (Some (q, out)) = (([], out), Some (q, out))"
    using h by (simp add: React_memo_def shallowEqual_Component2Props)
  have "stable (Home_final c (s\<lparr>name_state := v\<rparr>))"
    unfolding eq using h skip
    by (intro stableI [where d = d and f = f and q = q and out = out])
       (simp_all add: render_Home_frame render_Home_c2_cell)
  moreover have "c2_renders (Home_final c (s\<lparr>name_state := v\<rparr>)) = c2_renders s"
    unfolding eq using h skip
    by (simp add: c2_renders_def c2_renders_render_Home renders_Nil)
  ultimately show ?thesis by simp
qed

lemma Home_final_ChangeSurname:
  assumes "stable s" and "v \<noteq> surname_state s"
  shows "stable (Home_final c (s\<lparr>surname_state := v\<rparr>)) \<and>
         (\<exists>p. c2_renders (Home_final c (s\<lparr>surname_state := v\<rparr>)) =
           c2_renders s + renders ''Component2'' (fst (c p)))"
proof -
  from assms(1) obtain d f q out where h: "data_hook s = Some ([surname_state s], d)"
    "func_hook s = Some ([], f)" "c2_cell s = Some (q, out)"
    "surname q = surname_state s" "ident (data q) = ident d" "func q = f"
    by (rule stableE)
  let ?d = "\<lparr>ident = next_ref s, entries = [(''surname'', JString v)]\<rparr>"
  let ?p = "\<lparr>surname = v, data = ?d, func = f\<rparr>"
  have eq: "Home_final c (s\<lparr>surname_state := v\<rparr>) =
     render_Home Component2Props_object c ?p
       (s\<lparr>surname_state := v, data_hook := Some ([v], ?d), next_ref := Suc (Suc (next_ref s))\<rparr>)"
    using h assms(2) Home_final_new_surname [of "s\<lparr>surname_state := v\<rparr>" "surname_state s" d f c]
    by simp
  have again: "React_memo Component2Props_object c ?p (Some (q, out)) = (c ?p, Some (?p, snd (c ?p)))"
    using h assms(2) by (simp add: React_memo_def shallowEqual_Component2Props)
  have "stable (Home_final c (s\<lparr>surname_state := v\<rparr>))"
    unfolding eq using h again
    by (intro stableI [where d = ?d and f = f and q = ?p and out = "snd (c ?p)"])
       (simp_all add: render_Home_frame render_Home_c2_cell)
  moreover have "c2_renders (Home_final c (s\<lparr>surname_state := v\<rparr>)) =
      c2_renders s + renders ''Component2'' (fst (c ?p))"
    unfolding eq using h again
    by (simp add: c2_renders_def c2_renders_render_Home)
  ultimately show ?thesis by blast
qed

lemma mount_Home_final:
  "stable (mount (Home_final c)) \<and>
   (\<exists>p. c2_renders (mount (Home_final c)) = renders ''Component2'' (fst (c p)))"
proof -
  let ?d = "\<lparr>ident = 0, entries = [(''surname'', JString '''')]\<rparr>"
  let ?p = "\<lparr>surname = '''', data = ?d, func = Suc 0\<rparr>"
  let ?s = "(initial :: Component2Props app)\<lparr>data_hook := Some (['''']
, ?d), func_hook := Some ([], Suc 0), next_ref := Suc (Suc 0)\<rparr>"
  have eq: "mount (Home_final c) = render_Home Component2Props_object c ?p ?s"
    by (simp add: mount_def initial_def Home_final_def useMemo_def useCallback_def
        new_function_def new_object_def)
  have first: "React_memo Component2Props_object c ?p None = (c ?p, Some (?p, snd (c ?p)))"
    by (simp add: React_memo_def)
  have "stable (mount (Home_final c))"
    unfolding eq using first
    by (intro stableI [where d = ?d and f = "Suc 0" and q = ?p and out = "snd (c ?p)"])
       (simp_all add: render_Home_frame render_Home_c2_cell initial_def)
  moreover have "c2_renders (mount (Home_final c)) = renders ''Component2'' (fst (c ?p))"
    unfolding eq using first
    by (simp add: c2_renders_def c2_renders_render_Home initial_def renders_Nil)
  ultimately show ?thesis by blast
qed

lemma Home_final_frame:
  "name_state (Home_final c s) = name_state s"
  "surname_state (Home_final c s) = surname_state s"
  by (simp_all add: Home_final_def useMemo_def useCallback_def new_function_def new_object_def
      render_Home_frame split: option.splits prod.splits)

lemma dispatch_Home_final:
  assumes once: "\<And>p. renders ''Component2'' (fst (c p)) = 1" and "stable s"
  shows "stable (dispatch (Home_final c) e s) \<and>
         c2_renders (dispatch (Home_final c) e s) = c2_renders s + surname_changes (surname_state s) [e]"
proof (cases e)
  case (ChangeName v)
  then show ?thesis
    using assms(2) Home_final_ChangeName [of s c v] by (simp add: setName_def)
next
  case (ChangeSurname v)
  show ?thesis
  proof (cases "v = surname_state s")
    case True
    with ChangeSurname assms(2) show ?thesis by simp
  next
    case False
    then show ?thesis
      using ChangeSurname assms(2) Home_final_ChangeSurname [of s v c] once
      by (auto simp add: setSurname_def)
  qed
qed

lemma surname_state_dispatch_Home_final:
  "surname_state (dispatch (Home_final c) e s) = surname_after (surname_state s) [e]"
  by (cases e) (simp_all add: Home_final_frame setName_def setSurname_def)

lemma surname_changes_Cons:
  "surname_changes cur (e # es) = surname_changes cur [e] + surname_changes (surname_after cur [e]) es"
  by (cases e) simp_all

lemma run_Home_final:
  assumes once: "\<And>p. renders ''Component2'' (fst (c p)) = 1" and "stable s"
  shows "stable (run (Home_final c) s es) \<and>
         c2_renders (run (Home_final c) s es) = c2_renders s + surname_changes (surname_state s) es"
  using assms(2)
proof (induction es arbitrary: s)
  case Nil
  then show ?case by simp
next
  case (Cons e es)
  have step: "stable (dispatch (Home_final c) e s)"
    "c2_renders (dispatch (Home_final c) e s) = c2_renders s + surname_changes (surname_state s) [e]"
    using dispatch_Home_final [OF once Cons.prems, where e = e] by simp_all
  have "stable (run (Home_final c) (dispatch (Home_final c) e s) es)"
    and "c2_renders (run (Home_final c) (dispatch (Home_final c) e s) es) =
      c2_renders (dispatch (Home_final c) e s) +
      surname_changes (surname_state (dispatch (Home_final c) e s)) es"
    using Cons.IH [OF step(1)] by simp_all
  then show ?case
    using step(2) surname_changes_Cons [of "surname_state s" e es]
    by (simp add: surname_state_dispatch_Home_final)
qed

lemma mount_Home_final_renders:
  assumes once: "\<And>p. renders ''Component2'' (fst (c p)) = 1"
  shows "c2_renders (mount (Home_final c)) = 1" and "surname_state (mount (Home_final c)) = ''''"
  using mount_Home_final [of c] once
  by (auto simp add: mount_def Home_final_frame initial_def)

subsection \<open>Literals in the props\<close>

lemma fresh_setters:
  "fresh_data (s\<lparr>name_state := v\<rparr>) = fresh_data s"
  "fresh_data (s\<lparr>surname_state := v\<rparr>) = fresh_data s"
  "fresh_func (s'\<lparr>name_state := v\<rparr>) = fresh_func s'"
  "fresh_func (s'\<lparr>surname_state := v\<rparr>) = fresh_func s'"
  by (simp_all add: fresh_data_def fresh_func_def split: option.splits)

lemma Home_data_literal_fresh:
  assumes "fresh_data s"
  shows "fresh_data (Home_data_literal s) \<and>
         c2_renders (Home_data_literal s) = c2_renders s + 1"
proof -
  from assms obtain q out where h: "c2_cell s = Some (q, out)" "ident (data q) < next_ref s"
    by (cases "c2_cell s") (auto simp add: fresh_data_def)
  let ?p = "\<lparr>surname = surname_state s, data = \<lparr>ident = next_ref s, entries = []\<rparr>\<rparr>"
  have eq: "Home_data_literal s =
      render_Home Props_data_object Component2_data ?p (s\<lparr>next_ref := Suc (next_ref s)\<rparr>)"
    by (simp add: Home_data_literal_def new_object_def)
  have again: "React_memo Props_data_object Component2_data ?p (Some (q, out)) =
      (Component2_data ?p, Some (?p, snd (Component2_data ?p)))"
    using h by (simp add: React_memo_def shallowEqual_Props_data)
  have "fresh_data (Home_data_literal s)"
    unfolding eq using h again
    by (simp add: fresh_data_def render_Home_c2_cell render_Home_frame)
  moreover have "c2_renders (Home_data_literal s) = c2_renders s + 1"
    unfolding eq using h again
    by (simp add: c2_renders_def c2_renders_render_Home renders_Component2_data)
  ultimately show ?thesis by simp
qed

lemma mount_Home_data_literal: "fresh_data (mount Home_data_literal)"
  by (simp add: mount_def initial_def Home_data_literal_def new_object_def fresh_data_def
      render_Home_c2_cell render_Home_frame React_memo_def)

lemma dispatch_Home_data_literal:
  assumes "fresh_data s"
  shows "fresh_data (dispatch Home_data_literal e s)"
proof (cases e)
  case (ChangeName v)
  have "fresh_data (s\<lparr>name_state := v\<rparr>)" using assms by (simp add: fresh_setters)
  then show ?thesis
    using ChangeName assms Home_data_literal_fresh [of "s\<lparr>name_state := v\<rparr>"]
    by (simp add: setName_def)
next
  case (ChangeSurname v)
  have "fresh_data (s\<lparr>surname_state := v\<rparr>)" using assms by (simp add: fresh_setters)
  then show ?thesis
    using ChangeSurname assms Home_data_literal_fresh [of "s\<lparr>surname_state := v\<rparr>"]
    by (simp add: setSurname_def)
qed

lemma reachable_Home_data_literal: "fresh_data (run Home_data_literal (mount Home_data_literal) es)"
  by (rule run_invariant [where P = fresh_data])
     (simp_all add: mount_Home_data_literal dispatch_Home_data_literal)

lemma useMemo_next_ref:
  "next_ref s \<le> next_ref (snd (useMemo (new_object kvs) deps s))"
  by (simp add: useMemo_def new_object_def split: option.splits)

lemma useMemo_new_object_frame:
  "name_state (snd (useMemo (new_object kvs) deps s)) = name_state s"
  "surname_state (snd (useMemo (new_object kvs) deps s)) = surname_state s"
  "console (snd (useMemo (new_object kvs) deps s)) = console s"
  "c2_cell (snd (useMemo (new_object kvs) deps s)) = c2_cell s"
  by (simp_all add: useMemo_def new_object_def split: option.splits)

lemma Home_func_literal_fresh:
  assumes once: "\<And>p. renders ''Component2'' (fst (c p)) = 1" and "fresh_func s"
  shows "fresh_func (Home_func_literal c s) \<and>
         c2_renders (Home_func_literal c s) = c2_renders s + 1"
proof -
  from assms(2) obtain q out where h: "c2_cell s = Some (q, out)" "func q < next_ref s"
    by (cases "c2_cell s") (auto simp add: fresh_func_def)
  define m where "m = useMemo (new_object [(''surname'', JString (surname_state s))]) [surname_state s] s"
  let ?s1 = "snd m"
  let ?p = "\<lparr>surname = surname_state s, data = fst m, func = next_ref ?s1\<rparr>"
  have le: "next_ref s \<le> next_ref ?s1"
    unfolding m_def by (rule useMemo_next_ref)
  have fr: "surname_state ?s1 = surname_state s" "console ?s1 = console s" "c2_cell ?s1 = c2_cell s"
    unfolding m_def by (simp_all add: useMemo_new_object_frame)
  have eq: "Home_func_literal c s =
      render_Home Component2Props_object c ?p (?s1\<lparr>next_ref := Suc (next_ref ?s1)\<rparr>)"
    by (simp add: Home_func_literal_def new_function_def m_def split_beta fr [unfolded m_def])
  have again: "React_memo Component2Props_object c ?p (Some (q, out)) = (c ?p, Some (?p, snd (c ?p)))"
    using h le by (simp add: React_memo_def shallowEqual_Component2Props)
  have "fresh_func (Home_func_literal c s)"
    unfolding eq using h again fr
    by (simp add: fresh_func_def render_Home_c2_cell render_Home_frame)
  moreover have "c2_renders (Home_func_literal c s) = c2_renders s + 1"
    unfolding eq using h again fr once
    by (simp add: c2_renders_def c2_renders_render_Home)
  ultimately show ?thesis by simp
qed

lemma mount_Home_func_literal: "fresh_func (mount (Home_func_literal c))"
  by (simp add: mount_def initial_def Home_func_literal_def useMemo_def new_object_def
      new_function_def fresh_func_def render_Home_c2_cell render_Home_frame React_memo_def)

lemma dispatch_Home_func_literal:
  assumes once: "\<And>p. renders ''Component2'' (fst (c p)) = 1" and "fresh_func s"
  shows "fresh_func (dispatch (Home_func_literal c) e s)"
proof (cases e)
  case (ChangeName v)
  have "fresh_func (s\<lparr>name_state := v\<rparr>)" using assms(2) by (simp add: fresh_setters)
  then show ?thesis
    using ChangeName assms(2) Home_func_literal_fresh [OF once, where s = "s\<lparr>name_state := v\<rparr>"]
    by (simp add: setName_def)
next
  case (ChangeSurname v)
  have "fresh_func (s\<lparr>surname_state := v\<rparr>)" using assms(2) by (simp add: fresh_setters)
  then show ?thesis
    using ChangeSurname assms(2) Home_func_literal_fresh [OF once, where s = "s\<lparr>surname_state := v\<rparr>"]
    by (simp add: setSurname_def)
qed

lemma reachable_Home_func_literal:
  assumes once: "\<And>p. renders ''Component2'' (fst (c p)) = 1"
  shows "fresh_func (run (Home_func_literal c) (mount (Home_func_literal c)) es)"
  by (rule run_invariant [where P = fresh_func])
     (simp_all add: mount_Home_func_literal dispatch_Home_func_literal [OF once])

lemma Home_data_literal_frame:
  "name_state (Home_data_literal s) = name_state s"
  "surname_state (Home_data_literal s) = surname_state s"
  by (simp_all add: Home_data_literal_def new_object_def render_Home_frame)

lemma Home_func_literal_frame:
  "name_state (Home_func_literal c s) = name_state s"
  "surname_state (Home_func_literal c s) = surname_state s"
  by (simp_all add: Home_func_literal_def new_function_def render_Home_frame
      useMemo_new_object_frame split_beta)

lemma name_keystroke_Home_data_literal:
  assumes "fresh_data s" and "v \<noteq> name_state s"
  shows "c2_renders (dispatch Home_data_literal (ChangeName v) s) = c2_renders s + 1"
proof -
  have "fresh_data (s\<lparr>name_state := v\<rparr>)" using assms(1) by (simp add: fresh_setters)
  then show ?thesis
    using assms(2) Home_data_literal_fresh [of "s\<lparr>name_state := v\<rparr>"]
    by (simp add: setName_def c2_renders_def)
qed

lemma name_keystroke_Home_func_literal:
  assumes once: "\<And>p. renders ''Component2'' (fst (c p)) = 1"
    and "fresh_func s" and "v \<noteq> name_state s"
  shows "c2_renders (dispatch (Home_func_literal c) (ChangeName v) s) = c2_renders s + 1"
proof -
  have "fresh_func (s\<lparr>name_state := v\<rparr>)" using assms(2) by (simp add: fresh_setters)
  then show ?thesis
    using assms(3) Home_func_literal_fresh [OF once, where s = "s\<lparr>name_state := v\<rparr>"]
    by (simp add: setName_def c2_renders_def)
qed

subsection \<open>The guard on a list of prop sets\<close>

lemma feed_append:
  "feed obj c (ps @ qs) cell =
     (fst (feed obj c ps cell) @ fst (feed obj c qs (snd (feed obj c ps cell))),
      snd (feed obj c qs (snd (feed obj c ps cell))))"
  by (induction ps arbitrary: cell) (simp_all add: split_beta)

lemma feed_single:
  "feed obj c [p] cell = (fst (fst (React_memo obj c p cell)), snd (React_memo obj c p cell))"
  by (simp add: split_beta)

lemma feed_snoc:
  "snd (feed obj c (ps @ [p]) cell) = snd (React_memo obj c p (snd (feed obj c ps cell)))"
  by (simp add: feed_append split_beta)

lemma React_memo_held:
  assumes "shallowEqual (obj p) (obj p)"
    and "cell = None \<or> held obj c ps p' cell"
  shows "held obj c (ps @ [p]) p (snd (React_memo obj c p cell))"
  using assms
  by (auto simp add: React_memo_def held_def split: option.splits)

lemma feed_held:
  assumes refl: "\<And>p. shallowEqual (obj p) (obj p)"
  shows "held obj c (ps @ [p]) p (snd (feed obj c (ps @ [p]) None))"
proof (induction ps arbitrary: p rule: rev_induct)
  case Nil
  show ?case
    using React_memo_held [of obj p None c "[]"] refl by (simp add: split_beta)
next
  case (snoc p' ps)
  have "held obj c ((ps @ [p']) @ [p]) p
      (snd (React_memo obj c p (snd (feed obj c (ps @ [p']) None))))"
    using snoc.IH [of p'] refl
      React_memo_held [of obj p "snd (feed obj c (ps @ [p']) None)" c "ps @ [p']" p']
    by simp
  then show ?case
    unfolding feed_snoc [of obj c "ps @ [p']" p None] .
qed

lemma React_memo_rendered:
  "fst (fst (React_memo obj c p cell)) = [] \<or> fst (React_memo obj c p cell) = c p"
  by (simp add: React_memo_def split: option.splits)

lemma feed_twice:
  assumes "shallowEqual (obj p) (obj p)"
  shows "feed obj c [p, p] cell = feed obj c [p] cell"
  using assms by (auto simp add: React_memo_def split_beta split: option.splits)

lemma feed_mount: "feed obj c [p] None = (fst (c p), Some (p, snd (c p)))"
  by (simp add: React_memo_def)

lemma shallowEqual_refl:
  "shallowEqual (Component1Props_object p1) (Component1Props_object p1)"
  "shallowEqual (Props_object p2) (Props_object p2)"
  "shallowEqual (Props_data_object p3) (Props_data_object p3)"
  "shallowEqual (Component2Props_object p4) (Component2Props_object p4)"
  by (simp_all add: shallowEqual_Component1Props shallowEqual_Props shallowEqual_Props_data
      shallowEqual_Component2Props)

subsection \<open>The cells along a run\<close>

lemma run_Home_cells:
  "name_state (run Home s es) = name_after (name_state s) es \<and>
   surname_state (run Home s es) = surname_after (surname_state s) es"
proof (induction es arbitrary: s)
  case Nil
  show ?case by simp
next
  case (Cons e es)
  show ?case
    using Cons.IH [of "dispatch Home e s"]
    by (cases e) (auto simp add: Home_frame setName_def setSurname_def)
qed

lemma mount_Home_cells: "name_state (mount Home) = '''' \<and> surname_state (mount Home) = ''''"
  by (simp add: mount_def Home_frame initial_def)

subsection \<open>What the guard and the page show\<close>

lemma React_memo_returns_cell:
  "snd (React_memo obj c p cell) = Some (q, out) \<Longrightarrow> snd (fst (React_memo obj c p cell)) = out"
  by (auto simp add: React_memo_def split: option.splits if_splits)

lemma shown_held:
  assumes refl: "\<And>p. shallowEqual (obj p) (obj p)"
  shows "case snd (feed obj c (ps @ [p]) None) of
      None \<Rightarrow> False
    | Some (q, out) \<Rightarrow> shown obj c ps p = out \<and> out = snd (c q) \<and>
        shallowEqual (obj q) (obj p) \<and> q \<in> set (ps @ [p])"
proof -
  have h: "held obj c (ps @ [p]) p (snd (feed obj c (ps @ [p]) None))"
    using refl by (rule feed_held)
  then obtain q out where cell: "snd (feed obj c (ps @ [p]) None) = Some (q, out)"
    and props: "out = snd (c q)" "shallowEqual (obj q) (obj p)" "q \<in> set (ps @ [p])"
    by (cases "snd (feed obj c (ps @ [p]) None)") (auto simp add: held_def)
  have "shown obj c ps p = out"
    unfolding shown_def using cell React_memo_returns_cell [of obj c p "snd (feed obj c ps None)" q out]
    by (simp add: feed_snoc)
  with cell props show ?thesis by simp
qed

lemma unmutated_same:
  assumes "unmutated ps" and "a \<in> set ps" and "b \<in> set ps" and "ident (data a) = ident (data b)"
  shows "data a = data b"
  using assms by (auto simp add: unmutated_def list_all_iff)

lemma shown_Component2Props:
  assumes "unmutated (ps @ [p])"
  shows "shown Component2Props_object c ps p = snd (c p)"
proof -
  have "case snd (feed Component2Props_object c (ps @ [p]) None) of
      None \<Rightarrow> False
    | Some (q, out) \<Rightarrow> shown Component2Props_object c ps p = out \<and> out = snd (c q) \<and>
        shallowEqual (Component2Props_object q) (Component2Props_object p) \<and> q \<in> set (ps @ [p])"
    by (rule shown_held) (rule shallowEqual_refl)
  then obtain q where q: "shown Component2Props_object c ps p = snd (c q)"
    "surname q = surname p" "ident (data q) = ident (data p)" "func q = func p"
    "q \<in> set (ps @ [p])"
    by (cases "snd (feed Component2Props_object c (ps @ [p]) None)")
       (auto simp add: shallowEqual_Component2Props)
  have "data q = data p"
    using assms q(5) _ q(3) by (rule unmutated_same) simp
  with q have "q = p" by simp
  with q(1) show ?thesis by simp
qed

lemma page_currentE:
  assumes "page_current c s"
  obtains d f where "data_hook s = Some ([surname_state s], d)"
    and "func_hook s = Some ([], f)"
    and "entries d = [(''surname'', JString (surname_state s))]"
    and "c1_cell s = Some (\<lparr>name = name_state s\<rparr>, snd (Component1 \<lparr>name = name_state s\<rparr>))"
    and "c2_cell s = Some (\<lparr>surname = surname_state s, data = d, func = f\<rparr>,
           snd (c \<lparr>surname = surname_state s, data = d, func = f\<rparr>))"
  using assms
  by (cases "data_hook s"; cases "func_hook s") (auto simp add: page_current_def)

lemma render_Home_page_current:
  assumes "data_hook s = Some ([surname_state s], d)" and "func_hook s = Some ([], f)"
    and "entries d = [(''surname'', JString (surname_state s))]"
    and "c1_cell s = None \<or> (\<exists>n. c1_cell s = Some (\<lparr>name = n\<rparr>, snd (Component1 \<lparr>name = n\<rparr>)))"
    and "c2_cell s = None \<or> c2_cell s = Some (\<lparr>surname = surname_state s, data = d, func = f\<rparr>,
           snd (c \<lparr>surname = surname_state s, data = d, func = f\<rparr>))
         \<or> (\<exists>q out. c2_cell s = Some (q, out) \<and> surname q \<noteq> surname_state s)"
  shows "page_current c (render_Home Component2Props_object c
           \<lparr>surname = surname_state s, data = d, func = f\<rparr> s)"
proof -
  let ?p1 = "\<lparr>name = name_state s\<rparr>"
  let ?p2 = "\<lparr>surname = surname_state s, data = d, func = f\<rparr>"
  have m1: "React_memo Component1Props_object Component1 ?p1 (c1_cell s) =
      ((fst (fst (React_memo Component1Props_object Component1 ?p1 (c1_cell s))),
        snd (Component1 ?p1)), Some (?p1, snd (Component1 ?p1)))"
    using assms(4)
    by (auto simp add: React_memo_def shallowEqual_Component1Props)
  have m2: "React_memo Component2Props_object c ?p2 (c2_cell s) =
      ((fst (fst (React_memo Component2Props_object c ?p2 (c2_cell s))),
        snd (c ?p2)), Some (?p2, snd (c ?p2)))"
    using assms(5)
    by (auto simp add: React_memo_def shallowEqual_Component2Props)
  have v: "view (render_Home Component2Props_object c ?p2 s) =
      Some (Home_tree (name_state s) (surname_state s) (snd (Component1 ?p1)) (snd (c ?p2)))"
    unfolding render_Home_view by (subst m1, subst m2) simp
  have k1: "c1_cell (render_Home Component2Props_object c ?p2 s) = Some (?p1, snd (Component1 ?p1))"
    unfolding render_Home_c1_cell by (subst m1) simp
  have k2: "c2_cell (render_Home Component2Props_object c ?p2 s) = Some (?p2, snd (c ?p2))"
    unfolding render_Home_c2_cell by (subst m2) simp
  show ?thesis
    using assms(1-3) v k1 k2
    by (simp add: page_current_def render_Home_frame)
qed

lemma mount_Home_final_page: "page_current c (mount (Home_final c))"
proof -
  let ?d = "\<lparr>ident = 0, entries = [(''surname'', JString '''')]\<rparr>"
  let ?s = "(initial :: Component2Props app)\<lparr>data_hook := Some ([''''], ?d),
      func_hook := Some ([], Suc 0), next_ref := Suc (Suc 0)\<rparr>"
  have eq: "mount (Home_final c) =
      render_Home Component2Props_object c \<lparr>surname = surname_state ?s, data = ?d, func = Suc 0\<rparr> ?s"
    by (simp add: mount_def initial_def Home_final_def useMemo_def useCallback_def
        new_function_def new_object_def)
  show ?thesis
    unfolding eq by (rule render_Home_page_current) (simp_all add: initial_def)
qed

lemma dispatch_Home_final_page:
  assumes "page_current c s"
  shows "page_current c (dispatch (Home_final c) e s)"
proof -
  from assms obtain d f where h: "data_hook s = Some ([surname_state s], d)"
    "func_hook s = Some ([], f)"
    "entries d = [(''surname'', JString (surname_state s))]"
    "c1_cell s = Some (\<lparr>name = name_state s\<rparr>, snd (Component1 \<lparr>name = name_state s\<rparr>))"
    "c2_cell s = Some (\<lparr>surname = surname_state s, data = d, func = f\<rparr>,
           snd (c \<lparr>surname = surname_state s, data = d, func = f\<rparr>))"
    by (rule page_currentE)
  show ?thesis
  proof (cases e)
    case (ChangeName v)
    let ?s = "s\<lparr>name_state := v, next_ref := Suc (next_ref s)\<rparr>"
    have eq: "Home_final c (s\<lparr>name_state := v\<rparr>) =
        render_Home Component2Props_object c \<lparr>surname = surname_state ?s, data = d, func = f\<rparr> ?s"
      using h Home_final_same_surname [of "s\<lparr>name_state := v\<rparr>" d f c] by simp
    have "page_current c (Home_final c (s\<lparr>name_state := v\<rparr>))"
      unfolding eq using h by (intro render_Home_page_current) simp_all
    with assms ChangeName show ?thesis by (simp add: setName_def)
  next
    case (ChangeSurname v)
    show ?thesis
    proof (cases "v = surname_state s")
      case True
      with assms ChangeSurname show ?thesis by simp
    next
      case False
      let ?d = "\<lparr>ident = next_ref s, entries = [(''surname'', JString v)]\<rparr>"
      let ?s = "s\<lparr>surname_state := v, data_hook := Some ([v], ?d),
          next_ref := Suc (Suc (next_ref s))\<rparr>"
      have eq: "Home_final c (s\<lparr>surname_state := v\<rparr>) =
          render_Home Component2Props_object c \<lparr>surname = surname_state ?s, data = ?d, func = f\<rparr> ?s"
        using h False Home_final_new_surname [of "s\<lparr>surname_state := v\<rparr>" "surname_state s" d f c]
        by simp
      have "page_current c (Home_final c (s\<lparr>surname_state := v\<rparr>))"
        unfolding eq using h False by (intro render_Home_page_current) simp_all
      with False ChangeSurname show ?thesis by (simp add: setSurname_def)
    qed
  qed
qed

lemma reachable_Home_final_page: "page_current c (run (Home_final c) (mount (Home_final c)) es)"
  by (rule run_invariant [where P = "page_current c"])
     (simp_all add: mount_Home_final_page dispatch_Home_final_page)

section \<open>The claims\<close>

text \<open>
  Claim C1. For every leaf display unit and every sequence of prop updates, what the unit
  shows is its render of the current props. After any prop sets \<open>ps\<close> supplied from mount,
  the tree the guard returns for the next prop set \<open>p\<close>, whether it renders or skips, is
  the render of \<open>p\<close> for \<open>Component1\<close> (either wrapper) and for the one-prop
  \<open>Component2\<close>, and the guard's cell holds \<open>p\<close> with that tree. For the three-prop
  \<open>Component2\<close> (either wrapper) the tree returned is the one in the cell, the render of a
  prop set \<open>q\<close> that was supplied and agrees with \<open>p\<close> on the surname and on the
  references of \<open>data\<close> and \<open>func\<close>; where no object was written to between the passes
  it is the render of \<open>p\<close> itself. In one pass the guard either has no effect at all or
  returns what the component returns on the props of this pass. On the page, in every state
  reached from mount, \<open>Home\<close> and the final code show both leaves' renders of the current
  props.
\<close>

theorem memo_output_current:
  "shown Component1Props_object Component1 ps1 p1 = snd (Component1 p1) \<and>
   shown Component1Props_object Component1_fragment ps1 p1 = snd (Component1_fragment p1) \<and>
   shown Props_object Component2 ps2 p2 = snd (Component2 p2) \<and>
   snd (feed Component1Props_object Component1 (ps1 @ [p1]) None) =
     Some (p1, snd (Component1 p1)) \<and>
   snd (feed Component1Props_object Component1_fragment (ps1 @ [p1]) None) =
     Some (p1, snd (Component1_fragment p1)) \<and>
   snd (feed Props_object Component2 (ps2 @ [p2]) None) = Some (p2, snd (Component2 p2)) \<and>
   (case snd (feed Component2Props_object Component2_func (ps3 @ [p3]) None) of
      None \<Rightarrow> False
    | Some (q, out) \<Rightarrow>
        shown Component2Props_object Component2_func ps3 p3 = out \<and>
        out = snd (Component2_func q) \<and> q \<in> set (ps3 @ [p3]) \<and>
        surname q = surname p3 \<and> ident (data q) = ident (data p3) \<and> func q = func p3) \<and>
   (case snd (feed Component2Props_object Component2_func_fragment (ps3 @ [p3]) None) of
      None \<Rightarrow> False
    | Some (q, out) \<Rightarrow>
        shown Component2Props_object Component2_func_fragment ps3 p3 = out \<and>
        out = snd (Component2_func_fragment q) \<and> q \<in> set (ps3 @ [p3]) \<and>
        surname q = surname p3 \<and> ident (data q) = ident (data p3) \<and> func q = func p3) \<and>
   (unmutated (ps3 @ [p3]) \<longrightarrow>
      shown Component2Props_object Component2_func ps3 p3 = snd (Component2_func p3) \<and>
      shown Component2Props_object Component2_func_fragment ps3 p3 =
        snd (Component2_func_fragment p3)) \<and>
   (fst (fst (React_memo obj component p cell)) = [] \<or>
    fst (React_memo obj component p cell) = component p) \<and>
   consistent (run Home (mount Home) es) \<and>
   page_current Component2_func
     (run (Home_final Component2_func) (mount (Home_final Component2_func)) es) \<and>
   page_current Component2_func_fragment
     (run (Home_final Component2_func_fragment) (mount (Home_final Component2_func_fragment)) es)"
proof -
  have h1: "case snd (feed Component1Props_object c1 (ps1 @ [p1]) None) of
      None \<Rightarrow> False
    | Some (q, out) \<Rightarrow> shown Component1Props_object c1 ps1 p1 = out \<and> out = snd (c1 q) \<and>
        shallowEqual (Component1Props_object q) (Component1Props_object p1) \<and>
        q \<in> set (ps1 @ [p1])" for c1
    by (rule shown_held) (rule shallowEqual_refl)
  have a: "shown Component1Props_object c1 ps1 p1 = snd (c1 p1) \<and>
      snd (feed Component1Props_object c1 (ps1 @ [p1]) None) = Some (p1, snd (c1 p1))" for c1
    using h1 [of c1]
    by (cases "snd (feed Component1Props_object c1 (ps1 @ [p1]) None)")
       (auto simp add: shallowEqual_Component1Props)
  have h2: "case snd (feed Props_object Component2 (ps2 @ [p2]) None) of
      None \<Rightarrow> False
    | Some (q, out) \<Rightarrow> shown Props_object Component2 ps2 p2 = out \<and> out = snd (Component2 q) \<and>
        shallowEqual (Props_object q) (Props_object p2) \<and> q \<in> set (ps2 @ [p2])"
    by (rule shown_held) (rule shallowEqual_refl)
  have b: "shown Props_object Component2 ps2 p2 = snd (Component2 p2) \<and>
      snd (feed Props_object Component2 (ps2 @ [p2]) None) = Some (p2, snd (Component2 p2))"
    using h2
    by (cases "snd (feed Props_object Component2 (ps2 @ [p2]) None)")
       (auto simp add: shallowEqual_Props)
  have h3: "case snd (feed Component2Props_object c3 (ps3 @ [p3]) None) of
      None \<Rightarrow> False
    | Some (q, out) \<Rightarrow> shown Component2Props_object c3 ps3 p3 = out \<and> out = snd (c3 q) \<and>
        shallowEqual (Component2Props_object q) (Component2Props_object p3) \<and>
        q \<in> set (ps3 @ [p3])" for c3
    by (rule shown_held) (rule shallowEqual_refl)
  have c: "case snd (feed Component2Props_object c3 (ps3 @ [p3]) None) of
      None \<Rightarrow> False
    | Some (q, out) \<Rightarrow>
        shown Component2Props_object c3 ps3 p3 = out \<and>
        out = snd (c3 q) \<and> q \<in> set (ps3 @ [p3]) \<and>
        surname q = surname p3 \<and> ident (data q) = ident (data p3) \<and> func q = func p3" for c3
    using h3 [of c3]
    by (cases "snd (feed Component2Props_object c3 (ps3 @ [p3]) None)")
       (auto simp add: shallowEqual_Component2Props)
  have d: "unmutated (ps3 @ [p3]) \<longrightarrow>
      shown Component2Props_object Component2_func ps3 p3 = snd (Component2_func p3) \<and>
      shown Component2Props_object Component2_func_fragment ps3 p3 =
        snd (Component2_func_fragment p3)"
    by (simp add: shown_Component2Props)
  show ?thesis
    using a [of Component1] a [of Component1_fragment] b c [of Component2_func]
      c [of Component2_func_fragment] d React_memo_rendered [of obj component p cell]
      reachable_Home_consistent [of es] reachable_Home_final_page [of Component2_func es]
      reachable_Home_final_page [of Component2_func_fragment es]
    by simp
qed

text \<open>
  The same at a concrete input: after the surnames ``D'' and ``Do'', each with its own
  \<open>data\<close> object, a pass with the props of ``Do'' again is skipped and shows ``Do'' and the
  serialized object of ``Do''.
\<close>

theorem memo_output_current_witness:
  "unmutated
     [\<lparr>surname = ''D'', data = \<lparr>ident = 3, entries = [(''surname'', JString ''D'')]\<rparr>, func = 1\<rparr>,
      \<lparr>surname = ''Do'', data = \<lparr>ident = 6, entries = [(''surname'', JString ''Do'')]\<rparr>, func = 1\<rparr>,
      \<lparr>surname = ''Do'', data = \<lparr>ident = 6, entries = [(''surname'', JString ''Do'')]\<rparr>, func = 1\<rparr>] \<and>
   shown Component2Props_object Component2_func
     [\<lparr>surname = ''D'', data = \<lparr>ident = 3, entries = [(''surname'', JString ''D'')]\<rparr>, func = 1\<rparr>,
      \<lparr>surname = ''Do'', data = \<lparr>ident = 6, entries = [(''surname'', JString ''Do'')]\<rparr>, func = 1\<rparr>]
     \<lparr>surname = ''Do'', data = \<lparr>ident = 6, entries = [(''surname'', JString ''Do'')]\<rparr>, func = 1\<rparr> =
     Element ''div'' []
       [Element ''label'' [] [Text ''Component2: ''],
        Element ''p'' [] [Text ''Surname: '', Text ''Do''],
        Element ''p'' []
          [Text ''Data: '',
           Text (''{'' @ [CHR 0x22] @ ''surname'' @ [CHR 0x22] @ '':'' @
                 [CHR 0x22] @ ''Do'' @ [CHR 0x22] @ ''}'')]]"
proof -
  let ?A = "\<lparr>surname = ''D'', data = \<lparr>ident = 3, entries = [(''surname'', JString ''D'')]\<rparr>,
    func = 1\<rparr> :: Component2Props"
  let ?B = "\<lparr>surname = ''Do'', data = \<lparr>ident = 6, entries = [(''surname'', JString ''Do'')]\<rparr>,
    func = 1\<rparr> :: Component2Props"
  have u: "unmutated [?A, ?B, ?B]"
    by (simp add: unmutated_def)
  have r: "snd (Component2_func ?B) =
     Element ''div'' []
       [Element ''label'' [] [Text ''Component2: ''],
        Element ''p'' [] [Text ''Surname: '', Text ''Do''],
        Element ''p'' []
          [Text ''Data: '',
           Text (''{'' @ [CHR 0x22] @ ''surname'' @ [CHR 0x22] @ '':'' @
                 [CHR 0x22] @ ''Do'' @ [CHR 0x22] @ ''}'')]]"
    by (simp add: Component2_func_def quote_string_def quote_char_def)
  show ?thesis
    using memo_output_current [where ?ps3.0 = "[?A, ?B]" and ?p3.0 = ?B,
        THEN conjunct2, THEN conjunct2, THEN conjunct2, THEN conjunct2, THEN conjunct2,
        THEN conjunct2, THEN conjunct2, THEN conjunct2, THEN conjunct1] u r
    by simp
qed

text \<open>
  Claim C2. With \<open>Component2\<close> memoized (the one-prop unit of the page, and the three-prop
  unit of the final code, whose \<open>data\<close> and \<open>func\<close> come from the hooks), edits of the
  name input never run the render function of \<open>Component2\<close>: after any events \<open>es\<close> from
  mount, any further changes \<open>ns\<close> of the name leave the number of its renders as it was.
\<close>

theorem name_edits_never_rerender_Component2:
  "c2_renders (run Home (mount Home) (es @ map ChangeName ns)) =
     c2_renders (run Home (mount Home) es) \<and>
   c2_renders (run (Home_final Component2_func) (mount (Home_final Component2_func))
        (es @ map ChangeName ns)) =
     c2_renders (run (Home_final Component2_func) (mount (Home_final Component2_func)) es) \<and>
   c2_renders (run (Home_final Component2_func_fragment)
        (mount (Home_final Component2_func_fragment)) (es @ map ChangeName ns)) =
     c2_renders (run (Home_final Component2_func_fragment)
        (mount (Home_final Component2_func_fragment)) es)"
proof -
  have names: "surname_changes cur (map ChangeName ns) = 0" for cur
    using surname_changes_names [of cur ns "[]"] by simp
  have a: "c2_renders (run Home (mount Home) (es @ map ChangeName ns)) =
      c2_renders (run Home (mount Home) es)"
    using run_Home_c2_renders [OF reachable_Home_consistent, of es "map ChangeName ns"]
    by (simp add: run_append names)
  have b: "c2_renders (run (Home_final c) (mount (Home_final c)) (es @ map ChangeName ns)) =
      c2_renders (run (Home_final c) (mount (Home_final c)) es)"
    if once: "\<And>p. renders ''Component2'' (fst (c p)) = 1" for c
  proof -
    have st: "stable (run (Home_final c) (mount (Home_final c)) es)"
      using run_Home_final [OF once, where s = "mount (Home_final c)" and es = es] mount_Home_final [of c] by simp
    show ?thesis
      using run_Home_final [OF once st, where es = "map ChangeName ns"]
      by (simp add: run_append names)
  qed
  show ?thesis
    using a b [of Component2_func] b [of Component2_func_fragment]
    by (simp add: renders_Component2_func renders_Component2_func_fragment)
qed

text \<open>
  Claim C3. In the final code, typing the surname ``Doe'' one character at a time (the values
  ``D'', ``Do'', ``Doe'') from mount runs the render function of \<open>Component2\<close> exactly three
  times more than the mount did, however many changes of the name (each a re-evaluation of
  the root) come in between; the mount itself renders it once.
\<close>

theorem typing_Doe_renders_three_times:
  "c2_renders (run (Home_final Component2_func) (mount (Home_final Component2_func))
      (map ChangeName n0 @ ChangeSurname ''D'' # map ChangeName n1 @ ChangeSurname ''Do'' #
       map ChangeName n2 @ ChangeSurname ''Doe'' # map ChangeName n3)) =
     c2_renders (mount (Home_final Component2_func)) + 3 \<and>
   c2_renders (run (Home_final Component2_func_fragment)
      (mount (Home_final Component2_func_fragment))
      (map ChangeName n0 @ ChangeSurname ''D'' # map ChangeName n1 @ ChangeSurname ''Do'' #
       map ChangeName n2 @ ChangeSurname ''Doe'' # map ChangeName n3)) =
     c2_renders (mount (Home_final Component2_func_fragment)) + 3 \<and>
   c2_renders (mount (Home_final Component2_func)) = 1 \<and>
   c2_renders (mount (Home_final Component2_func_fragment)) = 1"
proof -
  have names: "surname_changes cur (map ChangeName ns) = 0" for cur ns
    using surname_changes_names [of cur ns "[]"] by simp
  have count: "surname_changes ''''
      (map ChangeName n0 @ ChangeSurname ''D'' # map ChangeName n1 @ ChangeSurname ''Do'' #
       map ChangeName n2 @ ChangeSurname ''Doe'' # map ChangeName n3) = 3"
    by (simp add: surname_changes_names names)
  have b: "c2_renders (run (Home_final c) (mount (Home_final c))
      (map ChangeName n0 @ ChangeSurname ''D'' # map ChangeName n1 @ ChangeSurname ''Do'' #
       map ChangeName n2 @ ChangeSurname ''Doe'' # map ChangeName n3)) =
      c2_renders (mount (Home_final c)) + 3 \<and> c2_renders (mount (Home_final c)) = 1"
    if once: "\<And>p. renders ''Component2'' (fst (c p)) = 1" for c
    using run_Home_final [OF once, where s = "mount (Home_final c)"] mount_Home_final [of c]
      mount_Home_final_renders [OF once] count
    by simp
  show ?thesis
    using b [of Component2_func] b [of Component2_func_fragment]
    by (simp add: renders_Component2_func renders_Component2_func_fragment)
qed

theorem typing_Doe_renders_three_times_witness:
  "c2_renders (run (Home_final Component2_func_fragment)
      (mount (Home_final Component2_func_fragment))
      [ChangeSurname ''D'', ChangeName ''J'', ChangeSurname ''Do'', ChangeSurname ''Doe'']) = 4"
  using typing_Doe_renders_three_times [of "[]" "[''J'']" "[]" "[]"]
  by simp

text \<open>
  Claim C4. Where the root writes a structured prop in place (\<open>data={{}}\<close>, or
  \<open>func={() => undefined}\<close> beside a memoized \<open>data\<close>), every keystroke into the name
  field renders the memoized \<open>Component2\<close> exactly once, and the surname is as it was.
  A keystroke is a change event: the value \<open>v\<close> it carries differs from the one the name
  cell holds. The state is any state reached from mount.
\<close>

theorem naive_props_rerender_each_keystroke:
  "(v \<noteq> name_state (run Home_data_literal (mount Home_data_literal) es) \<longrightarrow>
      c2_renders (dispatch Home_data_literal (ChangeName v)
          (run Home_data_literal (mount Home_data_literal) es)) =
        c2_renders (run Home_data_literal (mount Home_data_literal) es) + 1 \<and>
      surname_state (dispatch Home_data_literal (ChangeName v)
          (run Home_data_literal (mount Home_data_literal) es)) =
        surname_state (run Home_data_literal (mount Home_data_literal) es)) \<and>
   (v \<noteq> name_state (run (Home_func_literal Component2_func)
        (mount (Home_func_literal Component2_func)) es) \<longrightarrow>
      c2_renders (dispatch (Home_func_literal Component2_func) (ChangeName v)
          (run (Home_func_literal Component2_func) (mount (Home_func_literal Component2_func)) es)) =
        c2_renders (run (Home_func_literal Component2_func)
          (mount (Home_func_literal Component2_func)) es) + 1 \<and>
      surname_state (dispatch (Home_func_literal Component2_func) (ChangeName v)
          (run (Home_func_literal Component2_func) (mount (Home_func_literal Component2_func)) es)) =
        surname_state (run (Home_func_literal Component2_func)
          (mount (Home_func_literal Component2_func)) es)) \<and>
   (v \<noteq> name_state (run (Home_func_literal Component2_func_fragment)
        (mount (Home_func_literal Component2_func_fragment)) es) \<longrightarrow>
      c2_renders (dispatch (Home_func_literal Component2_func_fragment) (ChangeName v)
          (run (Home_func_literal Component2_func_fragment)
            (mount (Home_func_literal Component2_func_fragment)) es)) =
        c2_renders (run (Home_func_literal Component2_func_fragment)
          (mount (Home_func_literal Component2_func_fragment)) es) + 1 \<and>
      surname_state (dispatch (Home_func_literal Component2_func_fragment) (ChangeName v)
          (run (Home_func_literal Component2_func_fragment)
            (mount (Home_func_literal Component2_func_fragment)) es)) =
        surname_state (run (Home_func_literal Component2_func_fragment)
          (mount (Home_func_literal Component2_func_fragment)) es))"
proof -
  let ?A = "run Home_data_literal (mount Home_data_literal) es"
  let ?B = "run (Home_func_literal Component2_func) (mount (Home_func_literal Component2_func)) es"
  let ?C = "run (Home_func_literal Component2_func_fragment)
     (mount (Home_func_literal Component2_func_fragment)) es"
  have rB: "fresh_func ?B"
    using reachable_Home_func_literal [where c = Component2_func and es = es]
    by (simp add: renders_Component2_func)
  have rC: "fresh_func ?C"
    using reachable_Home_func_literal [where c = Component2_func_fragment and es = es]
    by (simp add: renders_Component2_func_fragment)
  have kA: "c2_renders (dispatch Home_data_literal (ChangeName v) ?A) = c2_renders ?A + 1"
    if "v \<noteq> name_state ?A"
    using that by (intro name_keystroke_Home_data_literal reachable_Home_data_literal)
  have kB: "c2_renders (dispatch (Home_func_literal Component2_func) (ChangeName v) ?B) =
      c2_renders ?B + 1"
    if "v \<noteq> name_state ?B"
    using that rB
      name_keystroke_Home_func_literal [where c = Component2_func and s = ?B and v = v]
    by (simp add: renders_Component2_func)
  have kC: "c2_renders (dispatch (Home_func_literal Component2_func_fragment) (ChangeName v) ?C) =
      c2_renders ?C + 1"
    if "v \<noteq> name_state ?C"
    using that rC
      name_keystroke_Home_func_literal [where c = Component2_func_fragment and s = ?C and v = v]
    by (simp add: renders_Component2_func_fragment)
  have sA: "surname_state (dispatch Home_data_literal (ChangeName v) ?A) = surname_state ?A"
    by (simp add: Home_data_literal_frame setName_def)
  have sB: "surname_state (dispatch (Home_func_literal Component2_func) (ChangeName v) ?B) =
      surname_state ?B"
    by (simp add: Home_func_literal_frame setName_def)
  have sC: "surname_state (dispatch (Home_func_literal Component2_func_fragment) (ChangeName v) ?C) =
      surname_state ?C"
    by (simp add: Home_func_literal_frame setName_def)
  show ?thesis
  proof (intro conjI impI)
    assume "v \<noteq> name_state ?A"
    then show "c2_renders (dispatch Home_data_literal (ChangeName v) ?A) = c2_renders ?A + 1"
      by (rule kA)
  next
    show "surname_state (dispatch Home_data_literal (ChangeName v) ?A) = surname_state ?A"
      by (rule sA)
  next
    assume "v \<noteq> name_state ?B"
    then show "c2_renders (dispatch (Home_func_literal Component2_func) (ChangeName v) ?B) =
      c2_renders ?B + 1"
      by (rule kB)
  next
    show "surname_state (dispatch (Home_func_literal Component2_func) (ChangeName v) ?B) =
      surname_state ?B"
      by (rule sB)
  next
    assume "v \<noteq> name_state ?C"
    then show "c2_renders (dispatch (Home_func_literal Component2_func_fragment) (ChangeName v) ?C) =
      c2_renders ?C + 1"
      by (rule kC)
  next
    show "surname_state (dispatch (Home_func_literal Component2_func_fragment) (ChangeName v) ?C) =
      surname_state ?C"
      by (rule sC)
  qed
qed

text \<open>
  The same at a concrete input: after the surname ``Doe'' was entered, \<open>Component2\<close> has
  rendered twice, and typing ``D'' into the empty name field renders it a third time.
\<close>

theorem naive_props_rerender_each_keystroke_witness:
  "c2_renders (run Home_data_literal (mount Home_data_literal) [ChangeSurname ''Doe'']) = 2 \<and>
   c2_renders (dispatch Home_data_literal (ChangeName ''D'')
     (run Home_data_literal (mount Home_data_literal) [ChangeSurname ''Doe''])) = 3 \<and>
   c2_renders (run (Home_func_literal Component2_func_fragment)
     (mount (Home_func_literal Component2_func_fragment)) [ChangeSurname ''Doe'']) = 2 \<and>
   c2_renders (dispatch (Home_func_literal Component2_func_fragment) (ChangeName ''D'')
     (run (Home_func_literal Component2_func_fragment)
        (mount (Home_func_literal Component2_func_fragment)) [ChangeSurname ''Doe''])) = 3"
proof -
  have n1: "name_state (run Home_data_literal (mount Home_data_literal) [ChangeSurname ''Doe'']) = ''''"
    by (simp add: Home_data_literal_frame setSurname_def mount_def initial_def)
  have n2: "name_state (run (Home_func_literal Component2_func_fragment)
     (mount (Home_func_literal Component2_func_fragment)) [ChangeSurname ''Doe'']) = ''''"
    by (simp add: Home_func_literal_frame setSurname_def mount_def initial_def)
  have c1: "c2_renders (run Home_data_literal (mount Home_data_literal) [ChangeSurname ''Doe'']) = 2"
    by (simp add: mount_def initial_def Home_data_literal_def new_object_def setSurname_def
        render_Home_def React_memo_def shallowEqual_def Props_data_object_def
        Component1Props_object_def Component1_def Component2_data_def c2_renders_def renders_def)
  have c2: "c2_renders (run (Home_func_literal Component2_func_fragment)
     (mount (Home_func_literal Component2_func_fragment)) [ChangeSurname ''Doe'']) = 2"
    by (simp add: mount_def initial_def Home_func_literal_def useMemo_def new_function_def
        new_object_def setSurname_def
        render_Home_def React_memo_def shallowEqual_def Component2Props_object_def
        Component1Props_object_def Component1_def Component2_func_fragment_def c2_renders_def renders_def)
  show ?thesis
    using naive_props_rerender_each_keystroke [of "''D''" "[ChangeSurname ''Doe'']"] n1 n2 c1 c2
    by simp
qed

text \<open>
  Claim C5. Round trip: after a string \<open>v\<close> is entered into the name input, the cell holds
  \<open>v\<close> and \<open>Component1\<close> shows the text ``Name: '' followed by \<open>v\<close> itself, on the page as
  in its guard; likewise the surname input and \<open>Component2\<close>. The state before is any state
  reached from mount.
\<close>

theorem input_round_trip:
  "name_state (run Home (mount Home) (es @ [ChangeName v])) = v \<and>
   map_option snd (c1_cell (run Home (mount Home) (es @ [ChangeName v]))) =
     Some (Element ''div'' []
       [Element ''label'' [] [Text ''Component1: ''],
        Element ''p'' [] [Text ''Name: '', Text v]]) \<and>
   view (run Home (mount Home) (es @ [ChangeName v])) =
     Some (Home_tree v (surname_after '''' es)
       (Element ''div'' []
         [Element ''label'' [] [Text ''Component1: ''],
          Element ''p'' [] [Text ''Name: '', Text v]])
       (Element ''div'' []
         [Element ''label'' [] [Text ''Component2: ''],
          Element ''p'' [] [Text ''Surname: '', Text (surname_after '''' es)]])) \<and>
   surname_state (run Home (mount Home) (es @ [ChangeSurname v])) = v \<and>
   map_option snd (c2_cell (run Home (mount Home) (es @ [ChangeSurname v]))) =
     Some (Element ''div'' []
       [Element ''label'' [] [Text ''Component2: ''],
        Element ''p'' [] [Text ''Surname: '', Text v]]) \<and>
   view (run Home (mount Home) (es @ [ChangeSurname v])) =
     Some (Home_tree (name_after '''' es) v
       (Element ''div'' []
         [Element ''label'' [] [Text ''Component1: ''],
          Element ''p'' [] [Text ''Name: '', Text (name_after '''' es)]])
       (Element ''div'' []
         [Element ''label'' [] [Text ''Component2: ''],
          Element ''p'' [] [Text ''Surname: '', Text v]]))"
proof -
  have cells: "name_state (run Home (mount Home) xs) = name_after '''' xs"
    "surname_state (run Home (mount Home) xs) = surname_after '''' xs" for xs
    using run_Home_cells [of "mount Home" xs] mount_Home_cells by simp_all
  have after: "name_after n (es @ [ChangeName v]) = v"
    "surname_after n (es @ [ChangeName v]) = surname_after n es"
    "surname_after n (es @ [ChangeSurname v]) = v"
    "name_after n (es @ [ChangeSurname v]) = name_after n es" for n
  proof -
    show "name_after n (es @ [ChangeName v]) = v"
      by (induction n es rule: name_after.induct) simp_all
    show "surname_after n (es @ [ChangeName v]) = surname_after n es"
      by (induction n es rule: surname_after.induct) simp_all
    show "surname_after n (es @ [ChangeSurname v]) = v"
      by (induction n es rule: surname_after.induct) simp_all
    show "name_after n (es @ [ChangeSurname v]) = name_after n es"
      by (induction n es rule: name_after.induct) simp_all
  qed
  have a: "consistent (run Home (mount Home) (es @ [ChangeName v]))"
    and b: "consistent (run Home (mount Home) (es @ [ChangeSurname v]))"
    by (rule reachable_Home_consistent)+
  show ?thesis
    using a b
    by (simp add: consistent_def cells after Component1_def Component2_def)
qed

text \<open>
  Claim C6. Idempotence of the guard: supplying the same prop set twice in succession has the
  effects and the result of supplying it once, whatever the guard held before; from mount,
  the render function runs exactly once.
\<close>

theorem memo_idempotent:
  "feed Component1Props_object Component1 [p1, p1] cell1 =
     feed Component1Props_object Component1 [p1] cell1 \<and>
   feed Component1Props_object Component1_fragment [p1, p1] cell1 =
     feed Component1Props_object Component1_fragment [p1] cell1 \<and>
   feed Props_object Component2 [p2, p2] cell2 = feed Props_object Component2 [p2] cell2 \<and>
   feed Component2Props_object Component2_func [p3, p3] cell3 =
     feed Component2Props_object Component2_func [p3] cell3 \<and>
   feed Component2Props_object Component2_func_fragment [p3, p3] cell3 =
     feed Component2Props_object Component2_func_fragment [p3] cell3 \<and>
   renders ''Component1'' (fst (feed Component1Props_object Component1 [p1, p1] None)) = 1 \<and>
   renders ''Component1'' (fst (feed Component1Props_object Component1_fragment [p1, p1] None)) = 1 \<and>
   renders ''Component2'' (fst (feed Props_object Component2 [p2, p2] None)) = 1 \<and>
   renders ''Component2'' (fst (feed Component2Props_object Component2_func [p3, p3] None)) = 1 \<and>
   renders ''Component2''
     (fst (feed Component2Props_object Component2_func_fragment [p3, p3] None)) = 1"
proof -
  have r1: "renders ''Component1'' (fst (Component1 p1)) = 1"
    "renders ''Component1'' (fst (Component1_fragment p1)) = 1"
    by (simp_all add: renders_def Component1_def Component1_fragment_def)
  have t1: "feed Component1Props_object c1 [p1, p1] k = feed Component1Props_object c1 [p1] k"
    for c1 k
    by (rule feed_twice) (rule shallowEqual_refl)
  have t2: "feed Props_object Component2 [p2, p2] k = feed Props_object Component2 [p2] k" for k
    by (rule feed_twice) (rule shallowEqual_refl)
  have t3: "feed Component2Props_object c3 [p3, p3] k = feed Component2Props_object c3 [p3] k"
    for c3 k
    by (rule feed_twice) (rule shallowEqual_refl)
  show ?thesis
    unfolding t1 t2 t3 feed_mount
    by (simp add: r1 renders_Component2 renders_Component2_func renders_Component2_func_fragment)
qed

text \<open>
  Claim C7. Frame property of the handlers: from any state, a change of the name input to
  \<open>v\<close> leaves the name cell at \<open>v\<close> and the surname cell as it was, and a change of the
  surname input leaves the surname cell at \<open>v\<close> and the name cell as it was; for the root
  of the page and for the root of the final code.
\<close>

theorem handlers_frame:
  "name_state (dispatch Home (ChangeName v) s) = v \<and>
   surname_state (dispatch Home (ChangeName v) s) = surname_state s \<and>
   surname_state (dispatch Home (ChangeSurname v) s) = v \<and>
   name_state (dispatch Home (ChangeSurname v) s) = name_state s \<and>
   name_state (dispatch (Home_final component) (ChangeName v) s') = v \<and>
   surname_state (dispatch (Home_final component) (ChangeName v) s') = surname_state s' \<and>
   surname_state (dispatch (Home_final component) (ChangeSurname v) s') = v \<and>
   name_state (dispatch (Home_final component) (ChangeSurname v) s') = name_state s'"
  by (simp add: Home_frame Home_final_frame setName_def setSurname_def)

text \<open>
  Claim C8. At mount both cells hold the empty string. Evaluating \<open>Home\<close> writes to neither
  cell, a change of one input does not write to the other cell, and along any run from mount
  each cell holds the value of the last change event of its own input (the empty string when
  there was none).
\<close>

theorem cells_initial_and_owned:
  "name_state (initial :: Props app) = '''' \<and>
   surname_state (initial :: Props app) = '''' \<and>
   name_state (mount Home) = '''' \<and>
   surname_state (mount Home) = '''' \<and>
   name_state (Home s) = name_state s \<and>
   surname_state (Home s) = surname_state s \<and>
   name_state (dispatch Home (ChangeSurname v) s) = name_state s \<and>
   surname_state (dispatch Home (ChangeName v) s) = surname_state s \<and>
   name_state (run Home (mount Home) es) = name_after '''' es \<and>
   surname_state (run Home (mount Home) es) = surname_after '''' es"
proof -
  have "name_state (run Home (mount Home) es) = name_after '''' es"
    "surname_state (run Home (mount Home) es) = surname_after '''' es"
    using run_Home_cells [of "mount Home" es] mount_Home_cells by simp_all
  then show ?thesis
    using mount_Home_cells
    by (simp add: initial_def Home_frame setName_def setSurname_def)
qed

text \<open>
  Claim C9. The three-prop \<open>Component2\<close> (either wrapper) never calls \<open>func\<close>, and its
  output does not depend on it: with the same surname and \<open>data\<close>, two functions give the
  same tree; the only effect of a render is one console line, which logs \<open>func\<close>; and the
  guard's comparison of two such prop sets holds exactly when the two functions are the same
  reference.
\<close>

theorem func_never_invoked:
  "snd (Component2_func \<lparr>surname = sn, data = d, func = f1\<rparr>) =
     snd (Component2_func \<lparr>surname = sn, data = d, func = f2\<rparr>) \<and>
   snd (Component2_func_fragment \<lparr>surname = sn, data = d, func = f1\<rparr>) =
     snd (Component2_func_fragment \<lparr>surname = sn, data = d, func = f2\<rparr>) \<and>
   (\<forall>r. Invoke r \<notin> set (fst (Component2_func p))) \<and>
   (\<forall>r. Invoke r \<notin> set (fst (Component2_func_fragment p))) \<and>
   fst (Component2_func p) =
     [ConsoleLog ''Component2 :: render''
        [(''surname'', VString (surname p)), (''data'', VObject (data p)),
         (''func'', VFunction (func p))]] \<and>
   fst (Component2_func_fragment p) = fst (Component2_func p) \<and>
   shallowEqual (Component2Props_object \<lparr>surname = sn, data = d, func = f1\<rparr>)
     (Component2Props_object \<lparr>surname = sn, data = d, func = f2\<rparr>) = (f1 = f2)"
  by (simp add: Component2_func_def Component2_func_fragment_def shallowEqual_Component2Props)

text \<open>
  Claim C10. The two versions of each leaf render the same up to the wrapper: the fragment
  and the \<open>div\<close> version of \<open>Component1\<close>, and of the three-prop \<open>Component2\<close>, have
  the same effects, the same children (the label, ``Name: '' and the name; the label,
  ``Surname: '' and the surname, ``Data: '' and the serialized \<open>data\<close>) and the same
  text; one is the other's children in a \<open>div\<close>, the other in a fragment.
\<close>

theorem wrappers_render_equivalent:
  "fst (Component1_fragment p) = fst (Component1 p) \<and>
   children (snd (Component1_fragment p)) = children (snd (Component1 p)) \<and>
   children (snd (Component1 p)) =
     [Element ''label'' [] [Text ''Component1: ''],
      Element ''p'' [] [Text ''Name: '', Text (name p)]] \<and>
   text_content (snd (Component1_fragment p)) = text_content (snd (Component1 p)) \<and>
   text_content (snd (Component1 p)) = ''Component1: '' @ ''Name: '' @ name p \<and>
   fst (Component2_func_fragment q) = fst (Component2_func q) \<and>
   children (snd (Component2_func_fragment q)) = children (snd (Component2_func q)) \<and>
   children (snd (Component2_func q)) =
     [Element ''label'' [] [Text ''Component2: ''],
      Element ''p'' [] [Text ''Surname: '', Text (surname q)],
      Element ''p'' [] [Text ''Data: '', Text (JSON_stringify (JObject (entries (data q))))]] \<and>
   text_content (snd (Component2_func_fragment q)) = text_content (snd (Component2_func q)) \<and>
   text_content (snd (Component2_func q)) =
     ''Component2: '' @ ''Surname: '' @ surname q @
     ''Data: '' @ JSON_stringify (JObject (entries (data q))) \<and>
   snd (Component1 p) = Element ''div'' [] (children (snd (Component1_fragment p))) \<and>
   snd (Component1_fragment p) = Fragment (children (snd (Component1 p))) \<and>
   snd (Component2_func q) = Element ''div'' [] (children (snd (Component2_func_fragment q))) \<and>
   snd (Component2_func_fragment q) = Fragment (children (snd (Component2_func q)))"
  by (simp add: Component1_def Component1_fragment_def Component2_func_def
      Component2_func_fragment_def del: JSON_stringify.simps)

end
